theory Spec2Isabelle
  imports Complex_Main "HOL-Library.AList" "HOL-Library.Sublist" "HOL-Library.Word"
begin

section \<open>Values exchanged with the serving layer\<close>

text \<open>
  The handlers of the echo server build plain JavaScript values that the serving layer
  serialises as JSON. An object is an association list with one entry for each key; a
  property assignment \<^verbatim>\<open>ret[key] = v\<close> is \<^const>\<open>AList.update\<close>, which replaces the value of
  an existing key in place and appends a new key at the end. The properties below read
  an object by key only, through \<^const>\<open>map_of\<close>, so the order in which JavaScript
  enumerates the keys plays no part. A JSON number is a double and therefore a
  rational.
\<close>

datatype json =
    JNull
  | JBool bool
  | JNum rat
  | JStr string
  | JArr "json list"
  | JObj "(string \<times> json) list"

text \<open>
  An exception that leaves a function is the left summand of its result. The only
  exception the handlers can meet by name is the one \<^verbatim>\<open>atob\<close> raises; every other one
  comes from the body reader of the serving layer.
\<close>

datatype exn = InvalidCharacterError | ReadError

text \<open>
  JavaScript's truthiness of a value of type \<^verbatim>\<open>string | null\<close>: \<^verbatim>\<open>null\<close> and the empty
  string are falsy.
\<close>

fun truthy :: "string option \<Rightarrow> bool" where
  "truthy None = False"
| "truthy (Some s) = (s \<noteq> [])"

definition startsWith :: "string \<Rightarrow> string \<Rightarrow> bool" where
  "startsWith s p = prefix p s"

definition endsWith :: "string \<Rightarrow> string \<Rightarrow> bool" where
  "endsWith s p = suffix p s"

text \<open>
  \<^verbatim>\<open>String.prototype.split\<close> with a separator of one character: the pieces between the
  occurrences of the separator, empty pieces included; a string without the separator
  is its own single piece.
\<close>

fun split :: "string \<Rightarrow> char \<Rightarrow> string list" where
  "split [] c = [[]]"
| "split (x # xs) c =
     (if x = c then [] # split xs c
      else (case split xs c of [] \<Rightarrow> [[x]] | y # ys \<Rightarrow> (x # y) # ys))"

text \<open>\<^verbatim>\<open>Array.prototype.join\<close> on strings.\<close>

fun join :: "string list \<Rightarrow> string \<Rightarrow> string" where
  "join [] sep = []"
| "join [x] sep = x"
| "join (x # y # ys) sep = x @ sep @ join (y # ys) sep"

section \<open>Headers and query parameters\<close>

text \<open>
  Both platform collections are ordered lists of name/value pairs. A \<^verbatim>\<open>Headers\<close> object
  holds its names in lower case. \<^verbatim>\<open>Headers.get\<close> returns the values of a name combined
  with a comma and a space, or \<^verbatim>\<open>null\<close>; \<^verbatim>\<open>Headers.keys\<close> yields every name of the
  collection (the platform also sorts them, which no assignment below can observe).
  \<^verbatim>\<open>URLSearchParams.keys\<close> yields the name of every pair, duplicates included;
  \<^verbatim>\<open>getAll\<close> the values of a name in order; \<^verbatim>\<open>get\<close> the first of them or \<^verbatim>\<open>null\<close>.
\<close>

type_synonym pairs = "(string \<times> string) list"

definition getAll :: "pairs \<Rightarrow> string \<Rightarrow> string list" where
  "getAll ps name = map snd (filter (\<lambda>kv. fst kv = name) ps)"

definition keys :: "pairs \<Rightarrow> string list" where
  "keys ps = map fst ps"

definition params_get :: "pairs \<Rightarrow> string \<Rightarrow> string option" where
  "params_get ps name = (case getAll ps name of [] \<Rightarrow> None | v # _ \<Rightarrow> Some v)"

definition headers_keys :: "pairs \<Rightarrow> string list" where
  "headers_keys hs = remdups (map fst hs)"

definition headers_get :: "pairs \<Rightarrow> string \<Rightarrow> string option" where
  "headers_get hs name =
     (case getAll hs name of [] \<Rightarrow> None | v # vs \<Rightarrow> Some (join (v # vs) '', ''))"

datatype original = Headers pairs | URLSearchParams pairs

section \<open>The flattener\<close>

text \<open>
  \<^verbatim>\<open>toObject\<close> of \<^verbatim>\<open>info.ts\<close>. The two loops are folds over the keys; the header loop
  assigns only a truthy value, the parameter loop assigns always.
\<close>

definition headers_step :: "pairs \<Rightarrow> string \<Rightarrow> (string \<times> json) list \<Rightarrow> (string \<times> json) list" where
  "headers_step hs key ret =
     (let value = headers_get hs key
      in if truthy value then AList.update key (JStr (the value)) ret else ret)"

definition params_step :: "pairs \<Rightarrow> string \<Rightarrow> (string \<times> json) list \<Rightarrow> (string \<times> json) list" where
  "params_step ps key ret =
     (let values = getAll ps key
      in AList.update key
           (if length values = 1 then JStr (values ! 0) else JArr (map JStr values)) ret)"

fun toObject :: "original \<Rightarrow> (string \<times> json) list" where
  "toObject (Headers hs) = fold (headers_step hs) (headers_keys hs) []"
| "toObject (URLSearchParams ps) = fold (params_step ps) (keys ps) []"

declare toObject.simps [simp del]

text \<open>
  Reading a flattened map back: a scalar is a single value, a sequence is its values,
  a missing key has none.
\<close>

fun unJStr :: "json \<Rightarrow> string" where
  "unJStr (JStr s) = s"
| "unJStr _ = []"

fun expand :: "json option \<Rightarrow> string list" where
  "expand None = []"
| "expand (Some (JStr s)) = [s]"
| "expand (Some (JArr vs)) = map unJStr vs"
| "expand (Some _) = []"

section \<open>Requests and responses\<close>

text \<open>
  A request as the handlers read it: the client address, the URL (its text, its path
  and its query parameters), the headers, and the body reader. \<^verbatim>\<open>req.body()\<close> either
  raises or yields a body tagged with its type whose value is a promise; an awaited
  promise either rejects with an exception or resolves.
\<close>

datatype 'a promise = Rejects exn | Resolves 'a

record formData =
  form_fields :: pairs
  form_files :: "json list option"

datatype body =
    Body_json "json promise"
  | Body_form_data "formData promise"
  | Body_form "pairs promise"
  | Body_text "string promise"
  | Body_bytes "8 word list promise"
  | Body_undefined

record url =
  href :: string
  pathname :: string
  searchParams :: pairs

record request =
  ip :: string
  url :: url
  headers :: pairs
  body :: "exn + body"

text \<open>
  A response as the handlers write it: the status when one has been assigned, the
  headers, and the body when one has been assigned. \<^verbatim>\<open>headers.set\<close> replaces every
  value of the name.
\<close>

record response =
  status :: "nat option"
  resp_headers :: pairs
  resp_body :: "json option"

record ctx =
  request :: request
  response :: response

definition new_response :: response where
  "new_response = \<lparr>status = None, resp_headers = [], resp_body = None\<rparr>"

definition headers_set :: "pairs \<Rightarrow> string \<Rightarrow> string \<Rightarrow> pairs" where
  "headers_set hs name v = filter (\<lambda>kv. fst kv \<noteq> name) hs @ [(name, v)]"

text \<open>
  Modelled from the spec: the status the serving layer sends (its response object is
  not under src/). A status a handler assigned is sent as it is; without one, a
  response whose body has been set to a value is sent as 200, as the route table has
  it for the echo routes, which assign a body and no status. A response with neither
  a status nor a body is what is left when nothing answered the request, the not-found
  response 404 of the serving layer.
\<close>

definition sent_status :: "response \<Rightarrow> nat" where
  "sent_status r =
     (case status r of
        Some s \<Rightarrow> s
      | None \<Rightarrow> (case resp_body r of None \<Rightarrow> 404 | Some JNull \<Rightarrow> 404 | Some _ \<Rightarrow> 200))"

text \<open>
  Modelled from the spec: the redirect operation of the serving layer (not under
  src/). It puts the target, as it is given, in the \<^verbatim>\<open>Location\<close> header, keeps a
  redirect status that has been assigned and otherwise assigns the default redirect
  status 302, and attaches no JSON body (a notice in plain text that the layer may
  attach is not JSON and is left out). Header names are written in lower case, as the
  handlers write them; they are compared without regard to case on the wire.
\<close>

definition isRedirectStatus :: "nat \<Rightarrow> bool" where
  "isRedirectStatus s = (s \<in> set [300, 301, 302, 303, 305, 307, 308])"

definition redirect :: "string \<Rightarrow> response \<Rightarrow> response" where
  "redirect target r =
     r\<lparr>resp_headers := headers_set (resp_headers r) ''location'' target,
       status := (case status r of
                    Some s \<Rightarrow> if isRedirectStatus s then Some s else Some 302
                  | None \<Rightarrow> Some 302)\<rparr>"

section \<open>Describing a request\<close>

text \<open>\<^verbatim>\<open>basicInfo\<close> of \<^verbatim>\<open>info.ts\<close>.\<close>

definition basicInfo :: "request \<Rightarrow> (string \<times> json) list" where
  "basicInfo req =
     [(''origin'', JStr (ip req)),
      (''url'', JStr (href (url req))),
      (''searchParams'', JObj (toObject (URLSearchParams (searchParams (url req))))),
      (''headers'', JObj (toObject (Headers (headers req))))]"

text \<open>
  Decimal numerals, for \<^verbatim>\<open>Uint8Array.prototype.toString\<close>, which joins the decimal
  numerals of the bytes with commas. \<open>digit_char\<close> is applied to numbers below ten
  only.
\<close>

definition digit_char :: "nat \<Rightarrow> char" where
  "digit_char d = ''0123456789'' ! d"

fun show_nat :: "nat \<Rightarrow> string" where
  "show_nat n =
     (if n < 10 then [digit_char n] else show_nat (n div 10) @ [digit_char (n mod 10)])"

declare show_nat.simps [simp del]

definition bytes_toString :: "8 word list \<Rightarrow> string" where
  "bytes_toString bs = join (map (\<lambda>b. show_nat (unat b)) bs) '',''"

text \<open>
  \<^verbatim>\<open>bodyInfo\<close> of \<^verbatim>\<open>info.ts\<close>. \<open>bodyInfo_try\<close> is the block under \<^verbatim>\<open>try\<close>: an
  exception of \<^verbatim>\<open>req.body()\<close> or of an awaited value leaves it. \<^verbatim>\<open>bodyInfo\<close> is that
  block under the \<^verbatim>\<open>catch\<close>, which binds no exception and returns the error body for
  every one.
\<close>

fun await :: "'a promise \<Rightarrow> exn + 'a" where
  "await (Rejects e) = Inl e"
| "await (Resolves v) = Inr v"

definition decoded :: "string \<Rightarrow> json \<Rightarrow> (string \<times> json) list" where
  "decoded ty v = [(''body'', JObj [(''type'', JStr ty), (''value'', v)])]"

definition strings_obj :: "pairs \<Rightarrow> json" where
  "strings_obj ps = JObj (map (\<lambda>kv. (fst kv, JStr (snd kv))) ps)"

fun decode :: "body \<Rightarrow> exn + (string \<times> json) list" where
  "decode (Body_json p) =
     (case await p of Inl e \<Rightarrow> Inl e | Inr v \<Rightarrow> Inr (decoded ''json'' v))"
| "decode (Body_form_data p) =
     (case await p of
        Inl e \<Rightarrow> Inl e
      | Inr fd \<Rightarrow>
          Inr (decoded ''form-data''
                 (JObj [(''fields'', strings_obj (form_fields fd)),
                        (''files'', (case form_files fd of None \<Rightarrow> JNull | Some fs \<Rightarrow> JArr fs))])))"
| "decode (Body_form p) =
     (case await p of
        Inl e \<Rightarrow> Inl e
      | Inr ps \<Rightarrow> Inr (decoded ''form'' (JObj (toObject (URLSearchParams ps)))))"
| "decode (Body_text p) =
     (case await p of Inl e \<Rightarrow> Inl e | Inr s \<Rightarrow> Inr (decoded ''text'' (JStr s)))"
| "decode (Body_bytes p) =
     (case await p of
        Inl e \<Rightarrow> Inl e
      | Inr bs \<Rightarrow> Inr (decoded ''bytes'' (JStr (bytes_toString bs))))"
| "decode Body_undefined = Inr (decoded ''undefined'' JNull)"

definition bodyInfo_try :: "request \<Rightarrow> exn + (string \<times> json) list" where
  "bodyInfo_try req = (case body req of Inl e \<Rightarrow> Inl e | Inr b \<Rightarrow> decode b)"

definition bodyInfo :: "request \<Rightarrow> exn + (string \<times> json) list" where
  "bodyInfo req =
     (case bodyInfo_try req of
        Inl e \<Rightarrow> Inr (decoded ''error'' JNull)
      | Inr d \<Rightarrow> Inr d)"

text \<open>
  When does the block under \<^verbatim>\<open>try\<close> meet an exception: when \<^verbatim>\<open>req.body()\<close> raises, or
  when the awaited value of the body rejects.
\<close>

fun rejects :: "body \<Rightarrow> bool" where
  "rejects (Body_json (Rejects e)) = True"
| "rejects (Body_form_data (Rejects e)) = True"
| "rejects (Body_form (Rejects e)) = True"
| "rejects (Body_text (Rejects e)) = True"
| "rejects (Body_bytes (Rejects e)) = True"
| "rejects _ = False"

fun body_raises :: "exn + body \<Rightarrow> bool" where
  "body_raises (Inl e) = True"
| "body_raises (Inr b) = rejects b"

section \<open>The route handlers\<close>

text \<open>
  An object literal with spread members takes the properties of each member in turn.
\<close>

definition spread :: "(string \<times> json) list list \<Rightarrow> (string \<times> json) list" where
  "spread objs = fold (\<lambda>obj acc. fold (\<lambda>kv. AList.update (fst kv) (snd kv)) obj acc) objs []"

text \<open>
  The handler of \<^verbatim>\<open>/post\<close>; the handlers of \<^verbatim>\<open>/put\<close>, \<^verbatim>\<open>/patch\<close> and \<^verbatim>\<open>/delete\<close> have
  the same text. It assigns the body and no status.
\<close>

definition post_handler :: "request \<Rightarrow> response \<Rightarrow> exn + response" where
  "post_handler req r =
     (case bodyInfo req of
        Inl e \<Rightarrow> Inl e
      | Inr bi \<Rightarrow> Inr (r\<lparr>resp_body := Some (JObj (spread [basicInfo req, bi]))\<rparr>))"

text \<open>
  The platform's \<^verbatim>\<open>atob\<close> is the forgiving base64 decoding of the WHATWG Infra
  standard: ASCII whitespace is removed; when the length is then a multiple of four,
  one or two trailing equals signs are removed; a length that leaves remainder one
  and any character outside the base64 alphabet are failures, on which \<^verbatim>\<open>atob\<close> raises;
  the characters are decoded six bits each, and the four or two bits left over at the
  end are dropped.
\<close>

definition ascii_whitespace :: "char \<Rightarrow> bool" where
  "ascii_whitespace c = (c \<in> set [CHR 0x09, CHR 0x0A, CHR 0x0C, CHR 0x0D, CHR 0x20])"

definition base64_alphabet :: string where
  "base64_alphabet = ''ABCDEFGHIJKLMNOPQRSTUVWXYZabcdefghijklmnopqrstuvwxyz0123456789+/''"

fun index_from :: "char \<Rightarrow> string \<Rightarrow> nat \<Rightarrow> nat" where
  "index_from c [] i = i"
| "index_from c (x # xs) i = (if x = c then i else index_from c xs (i + 1))"

definition index_of :: "char \<Rightarrow> string \<Rightarrow> nat" where
  "index_of c xs = index_from c xs 0"

definition strip_padding :: "string \<Rightarrow> string" where
  "strip_padding d =
     (if length d mod 4 = 0 then
        (if d \<noteq> [] \<and> last d = CHR ''='' then
           (let d1 = butlast d
            in if d1 \<noteq> [] \<and> last d1 = CHR ''='' then butlast d1 else d1)
         else d)
      else d)"

fun sextets_bytes :: "nat list \<Rightarrow> nat list" where
  "sextets_bytes (a # b # c # d # rest) =
     (let n = ((a * 64 + b) * 64 + c) * 64 + d
      in n div 65536 # (n div 256) mod 256 # n mod 256 # sextets_bytes rest)"
| "sextets_bytes [a, b, c] =
     (let n = ((a * 64 + b) * 64 + c) div 4 in [n div 256, n mod 256])"
| "sextets_bytes [a, b] = [(a * 64 + b) div 16]"
| "sextets_bytes _ = []"

definition atob :: "string \<Rightarrow> exn + string" where
  "atob s =
     (let d = strip_padding (filter (\<lambda>c. \<not> ascii_whitespace c) s)
      in if length d mod 4 = 1 then Inl InvalidCharacterError
         else if list_ex (\<lambda>c. c \<notin> set base64_alphabet) d then Inl InvalidCharacterError
         else Inr (map char_of (sextets_bytes (map (\<lambda>c. index_of c base64_alphabet) d))))"

text \<open>
  The handler of \<^verbatim>\<open>/auth/basic/:username/:password\<close>. The call of \<^verbatim>\<open>atob\<close> stands under
  no \<^verbatim>\<open>try\<close>, so its exception leaves the handler.
\<close>

definition basic_unauthorized :: "response \<Rightarrow> response" where
  \<open>basic_unauthorized r =
     r\<lparr>resp_headers := headers_set (resp_headers r) ''www-authenticate'' ''Basic realm="blah"'',
       status := Some 401,
       resp_body := Some (JObj [(''authorized'', JBool False), (''username'', JNull)])\<rparr>\<close>

definition basic_authorized :: "string \<Rightarrow> response \<Rightarrow> response" where
  "basic_authorized username r =
     r\<lparr>status := Some 200,
       resp_body := Some (JObj [(''authorized'', JBool True), (''username'', JStr username)])\<rparr>"

definition auth_basic :: "string \<Rightarrow> string \<Rightarrow> request \<Rightarrow> response \<Rightarrow> exn + response" where
  "auth_basic username password req r =
     (let authHeader = headers_get (headers req) ''authorization''
      in if truthy authHeader \<and> startsWith (the authHeader) ''Basic'' then
           (let frags = split (the authHeader) CHR '' ''
            in if length frags = 2 \<and> frags ! 0 = ''Basic'' then
                 (case atob (frags ! 1) of
                    Inl e \<Rightarrow> Inl e
                  | Inr bin \<Rightarrow>
                      (let uAndP = split bin CHR '':''
                       in if length uAndP = 2 \<and> uAndP ! 0 = username \<and> uAndP ! 1 = password
                          then Inr (basic_authorized username r)
                          else Inr (basic_unauthorized r)))
               else Inr (basic_unauthorized r))
         else Inr (basic_unauthorized r))"

text \<open>The handler of \<^verbatim>\<open>/auth/bearer\<close>.\<close>

definition bearer_unauthorized :: "response \<Rightarrow> response" where
  "bearer_unauthorized r =
     r\<lparr>resp_headers := headers_set (resp_headers r) ''www-authenticate'' ''Bearer'',
       status := Some 401,
       resp_body := Some (JObj [(''authorized'', JBool False), (''token'', JNull)])\<rparr>"

definition bearer_authorized :: "string \<Rightarrow> response \<Rightarrow> response" where
  "bearer_authorized token r =
     r\<lparr>status := Some 200,
       resp_body := Some (JObj [(''authorized'', JBool True), (''token'', JStr token)])\<rparr>"

definition auth_bearer :: "request \<Rightarrow> response \<Rightarrow> response" where
  "auth_bearer req r =
     (let authHeader = headers_get (headers req) ''authorization''
      in if truthy authHeader \<and> startsWith (the authHeader) ''Bearer'' then
           (let frags = split (the authHeader) CHR '' ''
            in if length frags = 2 \<and> frags ! 0 = ''Bearer''
               then bearer_authorized (frags ! 1) r
               else bearer_unauthorized r)
         else bearer_unauthorized r)"

text \<open>
  The route \<^verbatim>\<open>/status/:code(\\d+)\<close>. The pattern of the parameter admits one or more
  decimal digits, and the router calls the handler only when the pattern matches;
  otherwise no handler of the table runs and the response stays as it was.

  On a string of digits the unary plus is the number the digits denote, and it raises
  on no string, so the \<^verbatim>\<open>catch\<close> of the handler has nothing to catch. The comparisons
  with 200 and 599 are those of the natural number, since rounding to a double is
  monotone and exact below \<open>2 ^ 53\<close>. The text that the template literal gives the
  number is a parameter \<open>num_str\<close> of the handler: it is the decimal numeral for a
  number below \<open>2 ^ 53\<close>, and the numeral of the rounded double above.
\<close>

definition is_digit :: "char \<Rightarrow> bool" where
  "is_digit c = (c \<in> set ''0123456789'')"

definition code_pattern :: "string \<Rightarrow> bool" where
  "code_pattern code = (code \<noteq> [] \<and> list_all is_digit code)"

definition digits_value :: "string \<Rightarrow> nat" where
  "digits_value code = foldl (\<lambda>n c. 10 * n + index_of c ''0123456789'') 0 code"

definition unary_plus :: "string \<Rightarrow> exn + nat" where
  "unary_plus code = Inr (digits_value code)"

definition error_body :: "string \<Rightarrow> json" where
  "error_body msg = JObj [(''error'', JStr msg)]"

definition status_handler :: "(nat \<Rightarrow> string) \<Rightarrow> string \<Rightarrow> response \<Rightarrow> response" where
  "status_handler num_str code r =
     (case unary_plus code of
        Inl e \<Rightarrow> r\<lparr>status := Some 400,
                   resp_body := Some (error_body ''status code is not a number'')\<rparr>
      | Inr statusCode \<Rightarrow>
          if statusCode < 200 \<or> statusCode > 599 then
            r\<lparr>status := Some 400,
              resp_body := Some (error_body (''status code '' @ num_str statusCode @
                                             '' is outside the range [200, 599]''))\<rparr>
          else r\<lparr>status := Some statusCode, resp_body := Some JNull\<rparr>)"

definition status_route :: "(nat \<Rightarrow> string) \<Rightarrow> string \<Rightarrow> response \<Rightarrow> response" where
  "status_route num_str code r =
     (if code_pattern code then status_handler num_str code r else r)"

text \<open>The handler of \<^verbatim>\<open>/redirect\<close>.\<close>

definition redirect_handler :: "request \<Rightarrow> response \<Rightarrow> response" where
  "redirect_handler req r =
     (let params = searchParams (url req);
          to = params_get params ''to'';
          permanent = params_get params ''permanent''
      in if \<not> truthy to then
           r\<lparr>status := Some 400,
             resp_body := Some (error_body ''provide a `to` link in the URL'')\<rparr>
         else redirect (the to)
                (if permanent = Some ''1'' \<or> permanent = Some ''true''
                 then r\<lparr>status := Some 301\<rparr> else r))"

section \<open>The trailing-slash middleware\<close>

text \<open>
  A middleware receives the context and the rest of the chain, \<open>next\<close>, which ends in
  the router. The first middleware of the application answers a path that ends in a
  slash, the root excepted, by itself and returns without calling \<open>next\<close>.
\<close>

definition trailing_slash :: "(ctx \<Rightarrow> exn + ctx) \<Rightarrow> ctx \<Rightarrow> exn + ctx" where
  "trailing_slash next ctx =
     (let originalUrl = pathname (url (request ctx))
      in if originalUrl \<noteq> ''/'' \<and> endsWith originalUrl ''/'' then
           Inr (ctx\<lparr>response :=
                  redirect (take (length originalUrl - 1) originalUrl)
                    ((response ctx)\<lparr>status := Some 301\<rparr>)\<rparr>)
         else next ctx)"

section \<open>Properties of the flattener\<close>

lemma map_of_fold_params_step:
  "map_of (fold (params_step ps) ks ret) k =
     (if k \<in> set ks
      then Some (if length (getAll ps k) = 1 then JStr (getAll ps k ! 0)
                 else JArr (map JStr (getAll ps k)))
      else map_of ret k)"
  by (induction ks arbitrary: ret) (auto simp: params_step_def Let_def update_conv')

lemma map_of_fold_headers_step:
  "map_of (fold (headers_step hs) ks ret) k =
     (if k \<in> set ks \<and> truthy (headers_get hs k)
      then Some (JStr (the (headers_get hs k)))
      else map_of ret k)"
  by (induction ks arbitrary: ret) (auto simp: headers_step_def Let_def update_conv')

lemma getAll_Nil_iff: "getAll ps k = [] \<longleftrightarrow> k \<notin> set (keys ps)"
  by (induction ps) (auto simp: getAll_def keys_def)

lemma getAll_Cons_key: "getAll ps k = v # vs \<Longrightarrow> k \<in> fst ` set ps"
  using getAll_Nil_iff [of ps k] by (simp add: keys_def)

lemma map_of_toObject_params:
  "map_of (toObject (URLSearchParams ps)) k =
     (if getAll ps k = [] then None
      else if length (getAll ps k) = 1 then Some (JStr (getAll ps k ! 0))
      else Some (JArr (map JStr (getAll ps k))))"
  by (simp add: toObject.simps map_of_fold_params_step getAll_Nil_iff)

lemma map_of_toObject_headers:
  "map_of (toObject (Headers hs)) k =
     (case headers_get hs k of
        None \<Rightarrow> None
      | Some v \<Rightarrow> if v = [] then None else Some (JStr v))"
  by (auto simp: toObject.simps map_of_fold_headers_step headers_keys_def headers_get_def
      dest: getAll_Cons_key split: list.splits)

lemma expand_toObject_params:
  "expand (map_of (toObject (URLSearchParams ps)) k) = getAll ps k"
proof (cases "getAll ps k")
  case Nil
  then show ?thesis by (simp add: map_of_toObject_params)
next
  case (Cons v vs)
  then show ?thesis
    by (cases vs) (simp_all add: map_of_toObject_params comp_def)
qed

text \<open>
  Claim C7. On query parameters the flattener maps a key with exactly one value to that
  string and a key with several values to the sequence of them in order; no value is
  dropped, the empty string included, since every value of the input is among the
  values read back under its key; a key that is not in the input is not in the map,
  and the empty input gives the empty map. The flattener is a total function of its
  argument: it reads \<open>values[0]\<close> only under a length of one, so nothing in it can
  raise, and it writes to nothing but the object it returns.
\<close>

theorem toObject_params:
  "(getAll ps k = [v] \<longrightarrow> map_of (toObject (URLSearchParams ps)) k = Some (JStr v)) \<and>
   (2 \<le> length (getAll ps k) \<longrightarrow>
      map_of (toObject (URLSearchParams ps)) k = Some (JArr (map JStr (getAll ps k)))) \<and>
   ((k, v) \<in> set ps \<longrightarrow> v \<in> set (expand (map_of (toObject (URLSearchParams ps)) k))) \<and>
   (k \<notin> set (keys ps) \<longrightarrow> map_of (toObject (URLSearchParams ps)) k = None) \<and>
   toObject (URLSearchParams []) = []"
proof -
  have one: "getAll ps k = [v] \<longrightarrow> map_of (toObject (URLSearchParams ps)) k = Some (JStr v)"
    by (simp add: map_of_toObject_params)
  have many: "2 \<le> length (getAll ps k) \<longrightarrow>
      map_of (toObject (URLSearchParams ps)) k = Some (JArr (map JStr (getAll ps k)))"
    by (auto simp: map_of_toObject_params)
  have kept: "(k, v) \<in> set ps \<longrightarrow> v \<in> set (expand (map_of (toObject (URLSearchParams ps)) k))"
    unfolding expand_toObject_params by (force simp: getAll_def)
  have absent: "k \<notin> set (keys ps) \<longrightarrow> map_of (toObject (URLSearchParams ps)) k = None"
    using getAll_Nil_iff [of ps k] by (simp add: map_of_toObject_params)
  have empty: "toObject (URLSearchParams []) = []"
    by (simp add: toObject.simps keys_def)
  from one many kept absent empty show ?thesis by blast
qed

theorem toObject_params_witness:
  "getAll [(''a'', ''1''), (''a'', ''2''), (''b'', '''')] ''b'' = [''''] \<and>
   map_of (toObject (URLSearchParams [(''a'', ''1''), (''a'', ''2''), (''b'', '''')])) ''b''
     = Some (JStr '''') \<and>
   2 \<le> length (getAll [(''a'', ''1''), (''a'', ''2''), (''b'', '''')] ''a'') \<and>
   map_of (toObject (URLSearchParams [(''a'', ''1''), (''a'', ''2''), (''b'', '''')])) ''a''
     = Some (JArr [JStr ''1'', JStr ''2''])"
  using toObject_params [of "[(''a'', ''1''), (''a'', ''2''), (''b'', '''')]" "''b''" "''''"]
    toObject_params [of "[(''a'', ''1''), (''a'', ''2''), (''b'', '''')]" "''a''" "''1''"]
  by (simp add: getAll_def)

text \<open>
  Claim C2, as the code has it. On query parameters the flattener maps a key with
  exactly one value to that string and a key with two or more values to the sequence
  of all of them in order, never to null, so that reading the flattened map back gives
  the values of every key, in order. On headers it maps a name to the one string the
  platform combines the values of the name into, and leaves out a name whose combined
  value is the empty string.
\<close>

theorem toObject_flatten:
  "expand (map_of (toObject (URLSearchParams ps)) k) = getAll ps k \<and>
   map_of (toObject (URLSearchParams ps)) k \<noteq> Some JNull \<and>
   map_of (toObject (URLSearchParams ps)) k =
     (if getAll ps k = [] then None
      else if length (getAll ps k) = 1 then Some (JStr (getAll ps k ! 0))
      else Some (JArr (map JStr (getAll ps k)))) \<and>
   map_of (toObject (Headers hs)) k =
     (case headers_get hs k of
        None \<Rightarrow> None
      | Some v \<Rightarrow> if v = [] then None else Some (JStr v))"
  using map_of_toObject_params [of ps k] map_of_toObject_headers [of hs k]
    expand_toObject_params [of ps k]
  by simp

theorem toObject_flatten_witness:
  "expand (map_of (toObject (URLSearchParams [(''a'', ''1''), (''a'', ''2''), (''b'', '''')])) ''a'')
     = [''1'', ''2''] \<and>
   map_of (toObject (Headers [(''accept'', ''a''), (''accept'', ''b''), (''x-empty'', '''')])) ''accept''
     = Some (JStr ''a, b'') \<and>
   map_of (toObject (Headers [(''accept'', ''a''), (''accept'', ''b''), (''x-empty'', '''')])) ''x-empty''
     = None"
  using toObject_flatten [of "[(''a'', ''1''), (''a'', ''2''), (''b'', '''')]" "''a''"
      "[(''accept'', ''a''), (''accept'', ''b''), (''x-empty'', '''')]"]
    toObject_flatten [of "[]" "''x-empty''"
      "[(''accept'', ''a''), (''accept'', ''b''), (''x-empty'', '''')]"]
    toObject_flatten [of "[]" "''accept''"
      "[(''accept'', ''a''), (''accept'', ''b''), (''x-empty'', '''')]"]
  by (simp add: getAll_def headers_get_def)

text \<open>
  Claim C2 as it is stated fails on headers: a header that is present with exactly one
  value, the empty string, is not mapped to that string; its name is left out.
\<close>

theorem toObject_headers_counterexample:
  "getAll [(''x-empty'', '''')] ''x-empty'' = [''''] \<and>
   map_of (toObject (Headers [(''x-empty'', '''')])) ''x-empty'' = None \<and>
   map_of (toObject (Headers [(''x-empty'', '''')])) ''x-empty'' \<noteq> Some (JStr '''')"
  by (simp add: getAll_def headers_keys_def headers_step_def headers_get_def toObject.simps)

section \<open>Properties of the body decoder\<close>

lemma decode_shape: "decode b = Inr d \<Longrightarrow> \<exists>ty v. d = decoded ty v"
  by (cases b) (auto split: sum.splits)

lemma decode_rejects: "rejects b \<longleftrightarrow> (\<exists>e. decode b = Inl e)"
proof (cases b)
  case (Body_json p) then show ?thesis by (cases p) auto
next
  case (Body_form_data p) then show ?thesis by (cases p) auto
next
  case (Body_form p) then show ?thesis by (cases p) auto
next
  case (Body_text p) then show ?thesis by (cases p) auto
next
  case (Body_bytes p) then show ?thesis by (cases p) auto
next
  case Body_undefined then show ?thesis by simp
qed

lemma bodyInfo_try_raises: "body_raises (body req) \<longleftrightarrow> (\<exists>e. bodyInfo_try req = Inl e)"
  by (cases "body req") (auto simp: bodyInfo_try_def decode_rejects)

lemma bodyInfo_shape: "\<exists>ty v. bodyInfo req = Inr (decoded ty v)"
proof (cases "bodyInfo_try req")
  case (Inl e)
  then show ?thesis by (auto simp: bodyInfo_def)
next
  case (Inr d)
  then obtain ty v where "d = decoded ty v"
    by (cases "body req") (auto simp: bodyInfo_try_def dest: decode_shape)
  with Inr show ?thesis by (auto simp: bodyInfo_def)
qed

lemma map_of_spread_decoded:
  "map_of (spread [obj, decoded ty v]) ''body'' = map_of (decoded ty v) ''body''"
  by (simp add: spread_def decoded_def update_conv')

lemma bodyInfo_resolved:
  "(\<forall>j. body req = Inr (Body_json (Resolves j)) \<longrightarrow>
      bodyInfo req = Inr [(''body'', JObj [(''type'', JStr ''json''), (''value'', j)])]) \<and>
   (\<forall>fd. body req = Inr (Body_form_data (Resolves fd)) \<longrightarrow>
      bodyInfo req =
        Inr [(''body'', JObj [(''type'', JStr ''form-data''),
               (''value'', JObj [(''fields'', strings_obj (form_fields fd)),
                                 (''files'', (case form_files fd of
                                                None \<Rightarrow> JNull | Some fs \<Rightarrow> JArr fs))])])]) \<and>
   (\<forall>ps. body req = Inr (Body_form (Resolves ps)) \<longrightarrow>
      bodyInfo req =
        Inr [(''body'', JObj [(''type'', JStr ''form''),
               (''value'', JObj (toObject (URLSearchParams ps)))])]) \<and>
   (\<forall>s. body req = Inr (Body_text (Resolves s)) \<longrightarrow>
      bodyInfo req = Inr [(''body'', JObj [(''type'', JStr ''text''), (''value'', JStr s)])]) \<and>
   (\<forall>bs. body req = Inr (Body_bytes (Resolves bs)) \<longrightarrow>
      bodyInfo req =
        Inr [(''body'', JObj [(''type'', JStr ''bytes''), (''value'', JStr (bytes_toString bs))])]) \<and>
   (body req = Inr Body_undefined \<longrightarrow>
      bodyInfo req = Inr [(''body'', JObj [(''type'', JStr ''undefined''), (''value'', JNull)])])"
  by (simp add: bodyInfo_def bodyInfo_try_def decoded_def)

text \<open>
  Claim C1. For every request the body decoder returns exactly one decoded body and
  no exception: whatever \<open>req.body()\<close> and the awaited value do, \<open>bodyInfo\<close> returns on
  the right, and what it returns is an object with the one key \<open>body\<close> that holds a
  type tag and a value. When \<open>req.body()\<close> or the awaited value raises, it is the
  error body, with type \<open>error\<close> and value null. When none does, it is what the block
  under \<open>try\<close> returned: for each kind of body that resolves, the tag of the kind
  with the parsed JSON value, the fields and files of the form data (null for absent
  files), the flattened form, the text, the decimal rendering of the bytes, or null
  for an absent body. The handler of a write route, on a response without a status,
  then returns a response that is sent as 200 and whose body carries that decoded
  body under the key \<open>body\<close>.
\<close>

theorem bodyInfo_never_raises:
  assumes "status r = None"
  shows "\<exists>d r' obj.
           bodyInfo req = Inr d \<and>
           (body_raises (body req) \<longrightarrow> d = decoded ''error'' JNull) \<and>
           (\<not> body_raises (body req) \<longrightarrow> bodyInfo_try req = Inr d) \<and>
           post_handler req r = Inr r' \<and>
           sent_status r' = 200 \<and>
           resp_body r' = Some (JObj obj) \<and>
           map_of obj ''body'' = map_of d ''body'' \<and>
           (\<exists>ty v. d = [(''body'', JObj [(''type'', JStr ty), (''value'', v)])] \<and>
                    map_of obj ''body'' = Some (JObj [(''type'', JStr ty), (''value'', v)])) \<and>
           (body_raises (body req) \<longrightarrow>
              d = [(''body'', JObj [(''type'', JStr ''error''), (''value'', JNull)])]) \<and>
           (\<forall>j. body req = Inr (Body_json (Resolves j)) \<longrightarrow>
              d = [(''body'', JObj [(''type'', JStr ''json''), (''value'', j)])]) \<and>
           (\<forall>fd. body req = Inr (Body_form_data (Resolves fd)) \<longrightarrow>
              d = [(''body'', JObj [(''type'', JStr ''form-data''),
                     (''value'', JObj [(''fields'', JObj (map (\<lambda>kv. (fst kv, JStr (snd kv)))
                                                          (form_fields fd))),
                                       (''files'', (case form_files fd of
                                                      None \<Rightarrow> JNull
                                                    | Some fs \<Rightarrow> JArr fs))])])]) \<and>
           (\<forall>ps. body req = Inr (Body_form (Resolves ps)) \<longrightarrow>
              d = [(''body'', JObj [(''type'', JStr ''form''),
                     (''value'', JObj (toObject (URLSearchParams ps)))])]) \<and>
           (\<forall>s. body req = Inr (Body_text (Resolves s)) \<longrightarrow>
              d = [(''body'', JObj [(''type'', JStr ''text''), (''value'', JStr s)])]) \<and>
           (\<forall>bs. body req = Inr (Body_bytes (Resolves bs)) \<longrightarrow>
              d = [(''body'', JObj [(''type'', JStr ''bytes''),
                     (''value'', JStr (join (map (\<lambda>b. show_nat (unat b)) bs) '',''))])]) \<and>
           (body req = Inr Body_undefined \<longrightarrow>
              d = [(''body'', JObj [(''type'', JStr ''undefined''), (''value'', JNull)])])"
proof -
  obtain ty v where d: "bodyInfo req = Inr (decoded ty v)"
    using bodyInfo_shape by blast
  let ?d = "decoded ty v"
  let ?obj = "spread [basicInfo req, ?d]"
  let ?r' = "r\<lparr>resp_body := Some (JObj ?obj)\<rparr>"
  have raises: "body_raises (body req) \<longrightarrow> ?d = decoded ''error'' JNull"
    using d by (auto simp: bodyInfo_try_raises bodyInfo_def)
  have passes: "\<not> body_raises (body req) \<longrightarrow> bodyInfo_try req = Inr ?d"
    using d by (cases "bodyInfo_try req") (auto simp: bodyInfo_try_raises bodyInfo_def)
  have post: "post_handler req r = Inr ?r'"
    using d by (simp add: post_handler_def)
  have sent: "sent_status ?r' = 200"
    using assms by (simp add: sent_status_def)
  have emb: "map_of ?obj ''body'' = map_of ?d ''body''"
    by (rule map_of_spread_decoded)
  have shape: "\<exists>ty' v'. ?d = [(''body'', JObj [(''type'', JStr ty'), (''value'', v')])] \<and>
      map_of ?obj ''body'' = Some (JObj [(''type'', JStr ty'), (''value'', v')])"
    unfolding emb by (simp add: decoded_def)
  have err: "body_raises (body req) \<longrightarrow>
      ?d = [(''body'', JObj [(''type'', JStr ''error''), (''value'', JNull)])]"
    using raises by (simp add: decoded_def)
  note res = bodyInfo_resolved [of req, unfolded d strings_obj_def bytes_toString_def sum.inject]
  have r1: "\<forall>j. body req = Inr (Body_json (Resolves j)) \<longrightarrow>
              ?d = [(''body'', JObj [(''type'', JStr ''json''), (''value'', j)])]"
    using res by (elim conjE)
  have r2: "\<forall>fd. body req = Inr (Body_form_data (Resolves fd)) \<longrightarrow>
              ?d = [(''body'', JObj [(''type'', JStr ''form-data''),
                     (''value'', JObj [(''fields'', JObj (map (\<lambda>kv. (fst kv, JStr (snd kv)))
                                                          (form_fields fd))),
                                       (''files'', (case form_files fd of
                                                      None \<Rightarrow> JNull
                                                    | Some fs \<Rightarrow> JArr fs))])])]"
    using res by (elim conjE)
  have r3: "\<forall>ps. body req = Inr (Body_form (Resolves ps)) \<longrightarrow>
              ?d = [(''body'', JObj [(''type'', JStr ''form''),
                     (''value'', JObj (toObject (URLSearchParams ps)))])]"
    using res by (elim conjE)
  have r4: "\<forall>s. body req = Inr (Body_text (Resolves s)) \<longrightarrow>
              ?d = [(''body'', JObj [(''type'', JStr ''text''), (''value'', JStr s)])]"
    using res by (elim conjE)
  have r5: "\<forall>bs. body req = Inr (Body_bytes (Resolves bs)) \<longrightarrow>
              ?d = [(''body'', JObj [(''type'', JStr ''bytes''),
                     (''value'', JStr (join (map (\<lambda>b. show_nat (unat b)) bs) '',''))])]"
    using res by (elim conjE)
  have r6: "body req = Inr Body_undefined \<longrightarrow>
              ?d = [(''body'', JObj [(''type'', JStr ''undefined''), (''value'', JNull)])]"
    using res by (elim conjE)
  have carried: "resp_body ?r' = Some (JObj ?obj)"
    by simp
  show ?thesis
    by (rule exI [of _ ?d], rule exI [of _ ?r'], rule exI [of _ ?obj], intro conjI)
      (fact d raises passes post sent carried emb shape err r1 r2 r3 r4 r5 r6)+
qed

theorem bodyInfo_never_raises_witness:
  "status new_response = None \<and>
   body_raises (Inr (Body_json (Rejects ReadError))) \<and>
   (\<exists>r' obj.
      post_handler
       \<lparr>ip = ''127.0.0.1'',
        url = \<lparr>href = ''http://localhost:3000/post'', pathname = ''/post'', searchParams = []\<rparr>,
        headers = [], body = Inr (Body_json (Rejects ReadError))\<rparr> new_response = Inr r' \<and>
      sent_status r' = 200 \<and>
      resp_body r' = Some (JObj obj) \<and>
      map_of obj ''body'' = Some (JObj [(''type'', JStr ''error''), (''value'', JNull)])) \<and>
   bodyInfo
     \<lparr>ip = ''127.0.0.1'',
        url = \<lparr>href = ''http://localhost:3000/post'', pathname = ''/post'', searchParams = []\<rparr>,
        headers = [], body = Inr (Body_json (Rejects ReadError))\<rparr>
     = Inr [(''body'', JObj [(''type'', JStr ''error''), (''value'', JNull)])] \<and>
   bodyInfo
     \<lparr>ip = ''127.0.0.1'',
        url = \<lparr>href = ''http://localhost:3000/post'', pathname = ''/post'', searchParams = []\<rparr>,
        headers = [], body = Inr (Body_json (Resolves (JObj [(''a'', JNum 2), (''b'', JStr ''x''), (''c'', JNull)])))\<rparr>
     = Inr [(''body'', JObj [(''type'', JStr ''json''),
            (''value'', JObj [(''a'', JNum 2), (''b'', JStr ''x''), (''c'', JNull)])])] \<and>
   bodyInfo
     \<lparr>ip = ''127.0.0.1'',
        url = \<lparr>href = ''http://localhost:3000/post'', pathname = ''/post'', searchParams = []\<rparr>,
        headers = [], body = Inr (Body_form_data (Resolves \<lparr>form_fields = [(''k'', ''v'')], form_files = None\<rparr>))\<rparr>
     = Inr [(''body'', JObj [(''type'', JStr ''form-data''),
            (''value'', JObj [(''fields'', JObj [(''k'', JStr ''v'')]), (''files'', JNull)])])] \<and>
   bodyInfo
     \<lparr>ip = ''127.0.0.1'',
        url = \<lparr>href = ''http://localhost:3000/post'', pathname = ''/post'', searchParams = []\<rparr>,
        headers = [], body = Inr (Body_form (Resolves [(''a'', ''1''), (''a'', ''2'')]))\<rparr>
     = Inr [(''body'', JObj [(''type'', JStr ''form''),
            (''value'', JObj [(''a'', JArr [JStr ''1'', JStr ''2''])])])] \<and>
   bodyInfo
     \<lparr>ip = ''127.0.0.1'',
        url = \<lparr>href = ''http://localhost:3000/post'', pathname = ''/post'', searchParams = []\<rparr>,
        headers = [], body = Inr (Body_text (Resolves ''hi''))\<rparr>
     = Inr [(''body'', JObj [(''type'', JStr ''text''), (''value'', JStr ''hi'')])] \<and>
   bodyInfo
     \<lparr>ip = ''127.0.0.1'',
        url = \<lparr>href = ''http://localhost:3000/post'', pathname = ''/post'', searchParams = []\<rparr>,
        headers = [], body = Inr (Body_bytes (Resolves [72, 105]))\<rparr>
     = Inr [(''body'', JObj [(''type'', JStr ''bytes''), (''value'', JStr ''72,105'')])] \<and>
   bodyInfo
     \<lparr>ip = ''127.0.0.1'',
        url = \<lparr>href = ''http://localhost:3000/post'', pathname = ''/post'', searchParams = []\<rparr>,
        headers = [], body = Inr (Body_undefined)\<rparr>
     = Inr [(''body'', JObj [(''type'', JStr ''undefined''), (''value'', JNull)])]"
proof -
  have fresh: "status new_response = None"
    by (simp add: new_response_def)
  note at = bodyInfo_never_raises [OF fresh]
  have handled: "\<exists>r' obj.
      post_handler
       \<lparr>ip = ''127.0.0.1'',
        url = \<lparr>href = ''http://localhost:3000/post'', pathname = ''/post'', searchParams = []\<rparr>,
        headers = [], body = Inr (Body_json (Rejects ReadError))\<rparr> new_response = Inr r' \<and>
      sent_status r' = 200 \<and>
      resp_body r' = Some (JObj obj) \<and>
      map_of obj ''body'' = Some (JObj [(''type'', JStr ''error''), (''value'', JNull)])"
    using at [of "\<lparr>ip = ''127.0.0.1'',
        url = \<lparr>href = ''http://localhost:3000/post'', pathname = ''/post'', searchParams = []\<rparr>,
        headers = [], body = Inr (Body_json (Rejects ReadError))\<rparr>"]
    by (auto simp: decoded_def)
  have b0: "bodyInfo
     \<lparr>ip = ''127.0.0.1'',
        url = \<lparr>href = ''http://localhost:3000/post'', pathname = ''/post'', searchParams = []\<rparr>,
        headers = [], body = Inr (Body_json (Rejects ReadError))\<rparr>
     = Inr [(''body'', JObj [(''type'', JStr ''error''), (''value'', JNull)])]"
    using at [of "\<lparr>ip = ''127.0.0.1'',
        url = \<lparr>href = ''http://localhost:3000/post'', pathname = ''/post'', searchParams = []\<rparr>,
        headers = [], body = Inr (Body_json (Rejects ReadError))\<rparr>"]
    by (auto simp: decoded_def)
  have b1: "bodyInfo
     \<lparr>ip = ''127.0.0.1'',
        url = \<lparr>href = ''http://localhost:3000/post'', pathname = ''/post'', searchParams = []\<rparr>,
        headers = [], body = Inr (Body_json (Resolves (JObj [(''a'', JNum 2), (''b'', JStr ''x''), (''c'', JNull)])))\<rparr>
     = Inr [(''body'', JObj [(''type'', JStr ''json''),
            (''value'', JObj [(''a'', JNum 2), (''b'', JStr ''x''), (''c'', JNull)])])]"
    using at [of "\<lparr>ip = ''127.0.0.1'',
        url = \<lparr>href = ''http://localhost:3000/post'', pathname = ''/post'', searchParams = []\<rparr>,
        headers = [], body = Inr (Body_json (Resolves (JObj [(''a'', JNum 2), (''b'', JStr ''x''), (''c'', JNull)])))\<rparr>"]
    by (auto simp: decoded_def)
  have b2: "bodyInfo
     \<lparr>ip = ''127.0.0.1'',
        url = \<lparr>href = ''http://localhost:3000/post'', pathname = ''/post'', searchParams = []\<rparr>,
        headers = [], body = Inr (Body_form_data (Resolves \<lparr>form_fields = [(''k'', ''v'')], form_files = None\<rparr>))\<rparr>
     = Inr [(''body'', JObj [(''type'', JStr ''form-data''),
            (''value'', JObj [(''fields'', JObj [(''k'', JStr ''v'')]), (''files'', JNull)])])]"
    using at [of "\<lparr>ip = ''127.0.0.1'',
        url = \<lparr>href = ''http://localhost:3000/post'', pathname = ''/post'', searchParams = []\<rparr>,
        headers = [], body = Inr (Body_form_data (Resolves \<lparr>form_fields = [(''k'', ''v'')], form_files = None\<rparr>))\<rparr>"]
    by (auto simp: decoded_def)
  have b3: "bodyInfo
     \<lparr>ip = ''127.0.0.1'',
        url = \<lparr>href = ''http://localhost:3000/post'', pathname = ''/post'', searchParams = []\<rparr>,
        headers = [], body = Inr (Body_form (Resolves [(''a'', ''1''), (''a'', ''2'')]))\<rparr>
     = Inr [(''body'', JObj [(''type'', JStr ''form''),
            (''value'', JObj [(''a'', JArr [JStr ''1'', JStr ''2''])])])]"
    using at [of "\<lparr>ip = ''127.0.0.1'',
        url = \<lparr>href = ''http://localhost:3000/post'', pathname = ''/post'', searchParams = []\<rparr>,
        headers = [], body = Inr (Body_form (Resolves [(''a'', ''1''), (''a'', ''2'')]))\<rparr>"]
    by (auto simp: decoded_def toObject.simps keys_def params_step_def getAll_def)
  have b4: "bodyInfo
     \<lparr>ip = ''127.0.0.1'',
        url = \<lparr>href = ''http://localhost:3000/post'', pathname = ''/post'', searchParams = []\<rparr>,
        headers = [], body = Inr (Body_text (Resolves ''hi''))\<rparr>
     = Inr [(''body'', JObj [(''type'', JStr ''text''), (''value'', JStr ''hi'')])]"
    using at [of "\<lparr>ip = ''127.0.0.1'',
        url = \<lparr>href = ''http://localhost:3000/post'', pathname = ''/post'', searchParams = []\<rparr>,
        headers = [], body = Inr (Body_text (Resolves ''hi''))\<rparr>"]
    by (auto simp: decoded_def)
  have b5: "bodyInfo
     \<lparr>ip = ''127.0.0.1'',
        url = \<lparr>href = ''http://localhost:3000/post'', pathname = ''/post'', searchParams = []\<rparr>,
        headers = [], body = Inr (Body_bytes (Resolves [72, 105]))\<rparr>
     = Inr [(''body'', JObj [(''type'', JStr ''bytes''), (''value'', JStr ''72,105'')])]"
    using at [of "\<lparr>ip = ''127.0.0.1'',
        url = \<lparr>href = ''http://localhost:3000/post'', pathname = ''/post'', searchParams = []\<rparr>,
        headers = [], body = Inr (Body_bytes (Resolves [72, 105]))\<rparr>"]
    by (auto simp: decoded_def show_nat.simps digit_char_def)
  have b6: "bodyInfo
     \<lparr>ip = ''127.0.0.1'',
        url = \<lparr>href = ''http://localhost:3000/post'', pathname = ''/post'', searchParams = []\<rparr>,
        headers = [], body = Inr (Body_undefined)\<rparr>
     = Inr [(''body'', JObj [(''type'', JStr ''undefined''), (''value'', JNull)])]"
    using at [of "\<lparr>ip = ''127.0.0.1'',
        url = \<lparr>href = ''http://localhost:3000/post'', pathname = ''/post'', searchParams = []\<rparr>,
        headers = [], body = Inr (Body_undefined)\<rparr>"]
    by (auto simp: decoded_def)
  show ?thesis
    using fresh handled b0 b1 b2 b3 b4 b5 b6 by simp
qed

section \<open>Properties of the authentication handlers\<close>

lemma split_not_Nil: "split s c \<noteq> []"
  by (induction s) (auto split: list.splits)

lemma join_split: "join (split s c) [c] = s"
proof (induction s)
  case Nil
  show ?case by simp
next
  case (Cons x xs)
  obtain y ys where y: "split xs c = y # ys"
    using split_not_Nil [of xs c] by (cases "split xs c") auto
  with Cons show ?case by (cases ys) auto
qed

lemma split_two: "split s c = [a, b] \<Longrightarrow> s = a @ c # b"
  using join_split [of s c] by simp

lemma length_two: "length xs = 2 \<Longrightarrow> \<exists>a b. xs = [a, b]"
  by (auto simp: length_Suc_conv numeral_2_eq_2)

lemma headers_get_set: "headers_get (headers_set hs name v) name = Some v"
  by (simp add: headers_get_def headers_set_def getAll_def)

lemmas atob_eval = atob_def strip_padding_def ascii_whitespace_def base64_alphabet_def
  index_of_def char_of_eq_iff Let_def

lemma auth_basic_frags:
  assumes "headers_get (headers req) ''authorization'' = Some h"
    and "split h CHR '' '' = [''Basic'', tok]"
  shows "auth_basic username password req r =
     (case atob tok of
        Inl e \<Rightarrow> Inl e
      | Inr bin \<Rightarrow>
          if length (split bin CHR '':'') = 2 \<and> split bin CHR '':'' ! 0 = username \<and>
             split bin CHR '':'' ! 1 = password
          then Inr (basic_authorized username r)
          else Inr (basic_unauthorized r))"
proof -
  have "h = ''Basic'' @ CHR '' '' # tok"
    using assms(2) by (rule split_two)
  then have "truthy (Some h)" "startsWith h ''Basic''"
    by (simp_all add: startsWith_def)
  with assms show ?thesis
    by (simp add: auth_basic_def Let_def split: sum.splits)
qed

lemma auth_basic_no_frags:
  assumes "\<not> (\<exists>h tok. headers_get (headers req) ''authorization'' = Some h \<and>
              split h CHR '' '' = [''Basic'', tok])"
  shows "auth_basic username password req r = Inr (basic_unauthorized r)"
proof (cases "headers_get (headers req) ''authorization''")
  case None
  then show ?thesis by (simp add: auth_basic_def)
next
  case (Some h)
  show ?thesis
  proof (cases "length (split h CHR '' '') = 2 \<and> split h CHR '' '' ! 0 = ''Basic''")
    case True
    then obtain a b where "split h CHR '' '' = [a, b]"
      using length_two by blast
    with True Some assms show ?thesis by auto
  next
    case False
    with Some show ?thesis by (auto simp: auth_basic_def Let_def)
  qed
qed

text \<open>
  The handler of the basic scheme has three outcomes and no other: the exception of
  \<open>atob\<close>, the authorized response, and the challenge.
\<close>

lemma auth_basic_outcomes:
  "auth_basic username password req r = Inl InvalidCharacterError \<or>
   auth_basic username password req r = Inr (basic_authorized username r) \<or>
   auth_basic username password req r = Inr (basic_unauthorized r)"
proof (cases "\<exists>h tok. headers_get (headers req) ''authorization'' = Some h \<and>
              split h CHR '' '' = [''Basic'', tok]")
  case True
  then obtain h tok where "headers_get (headers req) ''authorization'' = Some h"
    "split h CHR '' '' = [''Basic'', tok]" by blast
  from auth_basic_frags [OF this, of username password r] show ?thesis
    by (cases "atob tok") (auto simp: atob_def Let_def split: if_splits)
next
  case False
  then show ?thesis by (simp add: auth_basic_no_frags)
qed

text \<open>
  Claim C5. When the \<open>Authorization\<close> header splits at spaces into exactly the two
  pieces \<open>Basic\<close> and a token, the token is valid base64, and the decoded string splits
  at colons into exactly two pieces that equal the path parameters \<open>username\<close> and
  \<open>password\<close>, the handler answers 200 with the body
  \<open>{authorized: true, username}\<close> and sets no header.
\<close>

theorem auth_basic_ok:
  assumes "headers_get (headers req) ''authorization'' = Some h"
    and "split h CHR '' '' = [''Basic'', tok]"
    and "atob tok = Inr bin"
    and "split bin CHR '':'' = [username, password]"
  shows "\<exists>r'. auth_basic username password req r = Inr r' \<and>
           status r' = Some 200 \<and>
           resp_body r' = Some (JObj [(''authorized'', JBool True), (''username'', JStr username)]) \<and>
           resp_headers r' = resp_headers r"
  using auth_basic_frags [OF assms(1,2), of username password r] assms(3,4)
  by (simp add: basic_authorized_def)

theorem auth_basic_ok_witness:
  "headers_get [(''authorization'', ''Basic aGVsbG86d29ybGQ='')] ''authorization''
     = Some ''Basic aGVsbG86d29ybGQ='' \<and>
   split ''Basic aGVsbG86d29ybGQ='' CHR '' '' = [''Basic'', ''aGVsbG86d29ybGQ=''] \<and>
   atob ''aGVsbG86d29ybGQ='' = Inr ''hello:world'' \<and>
   split ''hello:world'' CHR '':'' = [''hello'', ''world''] \<and>
   (\<exists>r'. auth_basic ''hello'' ''world''
           \<lparr>ip = ''127.0.0.1'',
            url = \<lparr>href = ''http://localhost:3000/auth/basic/hello/world'',
                   pathname = ''/auth/basic/hello/world'', searchParams = []\<rparr>,
            headers = [(''authorization'', ''Basic aGVsbG86d29ybGQ='')],
            body = Inr Body_undefined\<rparr> new_response = Inr r' \<and>
         status r' = Some 200 \<and>
         resp_body r' = Some (JObj [(''authorized'', JBool True), (''username'', JStr ''hello'')]) \<and>
         resp_headers r' = resp_headers new_response)"
proof -
  have h1: "headers_get (headers \<lparr>ip = ''127.0.0.1'',
            url = \<lparr>href = ''http://localhost:3000/auth/basic/hello/world'',
                   pathname = ''/auth/basic/hello/world'', searchParams = []\<rparr>,
            headers = [(''authorization'', ''Basic aGVsbG86d29ybGQ='')],
            body = Inr Body_undefined\<rparr>) ''authorization''
     = Some ''Basic aGVsbG86d29ybGQ=''"
    by (simp add: headers_get_def getAll_def)
  have h2: "split ''Basic aGVsbG86d29ybGQ='' CHR '' '' = [''Basic'', ''aGVsbG86d29ybGQ='']"
    by simp
  have h3: "atob ''aGVsbG86d29ybGQ='' = Inr ''hello:world''"
    by (simp add: atob_eval)
  have h4: "split ''hello:world'' CHR '':'' = [''hello'', ''world'']"
    by simp
  from auth_basic_ok [OF h1 h2 h3 h4, of new_response] h1 h2 h3 h4
  show ?thesis by simp
qed

text \<open>
  Claim C3 fails on the code. A request to \<open>/auth/basic/hello/world\<close> whose header is
  \<open>Authorization: Basic hello:world\<close>, the credentials sent without encoding, has a
  second token that is not base64: \<open>atob\<close> raises, and since the call stands under no
  \<open>try\<close> the exception leaves the handler. The handler sets no status 401, no
  challenge header and no body.
\<close>

theorem auth_basic_raises:
  "auth_basic ''hello'' ''world''
     \<lparr>ip = ''127.0.0.1'',
      url = \<lparr>href = ''http://localhost:3000/auth/basic/hello/world'',
             pathname = ''/auth/basic/hello/world'', searchParams = []\<rparr>,
      headers = [(''authorization'', ''Basic hello:world'')],
      body = Inr Body_undefined\<rparr> new_response = Inl InvalidCharacterError"
  by (simp add: auth_basic_def headers_get_def getAll_def startsWith_def atob_eval)

text \<open>
  Claim C6. When the \<open>Authorization\<close> header splits at spaces into exactly the two
  pieces \<open>Bearer\<close> and a token, the handler answers 200 with the body
  \<open>{authorized: true, token}\<close>, the token being the second piece as it stands; in every
  other case (no header, another scheme, another number of pieces) it answers 401 with
  the header \<open>WWW-Authenticate: Bearer\<close> and the body \<open>{authorized: false, token: null}\<close>.
\<close>

theorem auth_bearer_spec:
  "(headers_get (headers req) ''authorization'' = Some h \<and>
    split h CHR '' '' = [''Bearer'', tok] \<longrightarrow>
      auth_bearer req r =
        r\<lparr>status := Some 200,
          resp_body := Some (JObj [(''authorized'', JBool True), (''token'', JStr tok)])\<rparr>) \<and>
   (\<not> (\<exists>h tok. headers_get (headers req) ''authorization'' = Some h \<and>
                   split h CHR '' '' = [''Bearer'', tok]) \<longrightarrow>
      auth_bearer req r =
        r\<lparr>resp_headers := headers_set (resp_headers r) ''www-authenticate'' ''Bearer'',
          status := Some 401,
          resp_body := Some (JObj [(''authorized'', JBool False), (''token'', JNull)])\<rparr>)"
proof (intro conjI impI)
  assume a: "headers_get (headers req) ''authorization'' = Some h \<and>
    split h CHR '' '' = [''Bearer'', tok]"
  then have "h = ''Bearer'' @ CHR '' '' # tok"
    by (intro split_two) simp
  then have "truthy (Some h)" "startsWith h ''Bearer''"
    by (simp_all add: startsWith_def)
  with a show "auth_bearer req r =
        r\<lparr>status := Some 200,
          resp_body := Some (JObj [(''authorized'', JBool True), (''token'', JStr tok)])\<rparr>"
    by (simp add: auth_bearer_def Let_def bearer_authorized_def)
next
  assume n: "\<not> (\<exists>h tok. headers_get (headers req) ''authorization'' = Some h \<and>
                   split h CHR '' '' = [''Bearer'', tok])"
  have "auth_bearer req r = bearer_unauthorized r"
  proof (cases "headers_get (headers req) ''authorization''")
    case None
    then show ?thesis by (simp add: auth_bearer_def)
  next
    case (Some h)
    show ?thesis
    proof (cases "length (split h CHR '' '') = 2 \<and> split h CHR '' '' ! 0 = ''Bearer''")
      case True
      then obtain a b where "split h CHR '' '' = [a, b]"
        using length_two by blast
      with True Some n show ?thesis by auto
    next
      case False
      with Some show ?thesis by (auto simp: auth_bearer_def Let_def)
    qed
  qed
  then show "auth_bearer req r =
        r\<lparr>resp_headers := headers_set (resp_headers r) ''www-authenticate'' ''Bearer'',
          status := Some 401,
          resp_body := Some (JObj [(''authorized'', JBool False), (''token'', JNull)])\<rparr>"
    by (simp add: bearer_unauthorized_def)
qed

theorem auth_bearer_spec_witness:
  "headers_get [(''authorization'', ''Bearer asdfghjkl'')] ''authorization''
     = Some ''Bearer asdfghjkl'' \<and>
   split ''Bearer asdfghjkl'' CHR '' '' = [''Bearer'', ''asdfghjkl''] \<and>
   auth_bearer \<lparr>ip = ''127.0.0.1'',
                url = \<lparr>href = ''http://localhost:3000/auth/bearer'',
                       pathname = ''/auth/bearer'', searchParams = []\<rparr>,
                headers = [(''authorization'', ''Bearer asdfghjkl'')],
                body = Inr Body_undefined\<rparr> new_response
     = \<lparr>status = Some 200, resp_headers = [],
        resp_body = Some (JObj [(''authorized'', JBool True), (''token'', JStr ''asdfghjkl'')])\<rparr> \<and>
   headers_get [] ''authorization'' = None \<and>
   auth_bearer \<lparr>ip = ''127.0.0.1'',
                url = \<lparr>href = ''http://localhost:3000/auth/bearer'',
                       pathname = ''/auth/bearer'', searchParams = []\<rparr>,
                headers = [],
                body = Inr Body_undefined\<rparr> new_response
     = \<lparr>status = Some 401, resp_headers = [(''www-authenticate'', ''Bearer'')],
        resp_body = Some (JObj [(''authorized'', JBool False), (''token'', JNull)])\<rparr>"
  using
    auth_bearer_spec [of
      "\<lparr>ip = ''127.0.0.1'',
        url = \<lparr>href = ''http://localhost:3000/auth/bearer'',
               pathname = ''/auth/bearer'', searchParams = []\<rparr>,
        headers = [(''authorization'', ''Bearer asdfghjkl'')],
        body = Inr Body_undefined\<rparr>" "''Bearer asdfghjkl''" "''asdfghjkl''" new_response]
    auth_bearer_spec [of
      "\<lparr>ip = ''127.0.0.1'',
        url = \<lparr>href = ''http://localhost:3000/auth/bearer'',
               pathname = ''/auth/bearer'', searchParams = []\<rparr>,
        headers = [],
        body = Inr Body_undefined\<rparr>" "''Bearer asdfghjkl''" "''asdfghjkl''" new_response]
  by (simp add: headers_get_def getAll_def new_response_def headers_set_def)

section \<open>Properties of the status route\<close>

lemma index_of_digit_char: "d < 10 \<Longrightarrow> index_of (digit_char d) ''0123456789'' = d"
  by (auto simp: less_Suc_eq eval_nat_numeral digit_char_def index_of_def)

lemma is_digit_digit_char: "d < 10 \<Longrightarrow> is_digit (digit_char d)"
  by (auto simp: less_Suc_eq eval_nat_numeral digit_char_def is_digit_def)

lemma digits_value_snoc:
  "digits_value (cs @ [c]) = 10 * digits_value cs + index_of c ''0123456789''"
  by (simp add: digits_value_def)

text \<open>The digits of a decimal numeral denote the number, and match the route's pattern.\<close>

lemma digits_value_show_nat: "digits_value (show_nat n) = n"
proof (induction n rule: show_nat.induct)
  case (1 n)
  show ?case
  proof (cases "n < 10")
    case True
    then show ?thesis
      using digits_value_snoc [of "[]" "digit_char n"]
      by (simp add: show_nat.simps [of n] index_of_digit_char digits_value_def)
  next
    case False
    with 1 show ?thesis
      by (simp add: show_nat.simps [of n] digits_value_snoc index_of_digit_char)
  qed
qed

lemma code_pattern_show_nat: "code_pattern (show_nat n)"
proof (induction n rule: show_nat.induct)
  case (1 n)
  show ?case
  proof (cases "n < 10")
    case True
    then show ?thesis
      by (simp add: show_nat.simps [of n] code_pattern_def is_digit_digit_char)
  next
    case False
    with 1 show ?thesis
      by (simp add: show_nat.simps [of n] code_pattern_def is_digit_digit_char)
  qed
qed

lemmas status_eval = code_pattern_def is_digit_def digits_value_def index_of_def error_body_def
  new_response_def

text \<open>
  Claim C4, as the code has it. For a code of one or more digits the parse does not
  fail; when the number is below 200 or above 599 the response is 400 with the body
  \<open>{error: "status code <number> is outside the range [200, 599]"}\<close>, and otherwise the
  status of the response is the number and the body is null. In particular the
  decimal numeral of every integer from 200 to 599 gives exactly that status with a
  null body. A code that is not made of digits, such as \<open>abc\<close>, does not match the
  route: the handler is not called and the response is left as it was.
\<close>

theorem status_route_spec:
  "(code_pattern code \<longrightarrow>
      unary_plus code = Inr (digits_value code) \<and>
      (digits_value code < 200 \<or> 599 < digits_value code \<longrightarrow>
         status_route num_str code r =
           r\<lparr>status := Some 400,
             resp_body := Some (error_body (''status code '' @ num_str (digits_value code) @
                                            '' is outside the range [200, 599]''))\<rparr>) \<and>
      (200 \<le> digits_value code \<and> digits_value code \<le> 599 \<longrightarrow>
         status_route num_str code r =
           r\<lparr>status := Some (digits_value code), resp_body := Some JNull\<rparr>)) \<and>
   (200 \<le> n \<and> n \<le> 599 \<longrightarrow>
      code_pattern (show_nat n) \<and>
      status_route num_str (show_nat n) r = r\<lparr>status := Some n, resp_body := Some JNull\<rparr>) \<and>
   (\<not> code_pattern code \<longrightarrow> status_route num_str code r = r)"
proof -
  have digits: "code_pattern code \<longrightarrow>
      unary_plus code = Inr (digits_value code) \<and>
      (digits_value code < 200 \<or> 599 < digits_value code \<longrightarrow>
         status_route num_str code r =
           r\<lparr>status := Some 400,
             resp_body := Some (error_body (''status code '' @ num_str (digits_value code) @
                                            '' is outside the range [200, 599]''))\<rparr>) \<and>
      (200 \<le> digits_value code \<and> digits_value code \<le> 599 \<longrightarrow>
         status_route num_str code r =
           r\<lparr>status := Some (digits_value code), resp_body := Some JNull\<rparr>)"
    by (auto simp: status_route_def status_handler_def unary_plus_def)
  have numerals: "200 \<le> n \<and> n \<le> 599 \<longrightarrow>
      code_pattern (show_nat n) \<and>
      status_route num_str (show_nat n) r = r\<lparr>status := Some n, resp_body := Some JNull\<rparr>"
    by (simp add: status_route_def status_handler_def unary_plus_def code_pattern_show_nat
        digits_value_show_nat)
  have others: "\<not> code_pattern code \<longrightarrow> status_route num_str code r = r"
    by (simp add: status_route_def)
  from digits numerals others show ?thesis by blast
qed

theorem status_route_spec_witness:
  "code_pattern ''42'' \<and>
   status_route show_nat ''42'' new_response =
     \<lparr>status = Some 400, resp_headers = [],
      resp_body = Some (JObj [(''error'', JStr ''status code 42 is outside the range [200, 599]'')])\<rparr> \<and>
   status_route show_nat ''600'' new_response =
     \<lparr>status = Some 400, resp_headers = [],
      resp_body = Some (JObj [(''error'', JStr ''status code 600 is outside the range [200, 599]'')])\<rparr> \<and>
   status_route show_nat ''1000'' new_response =
     \<lparr>status = Some 400, resp_headers = [],
      resp_body = Some (JObj [(''error'', JStr ''status code 1000 is outside the range [200, 599]'')])\<rparr> \<and>
   status_route show_nat ''204'' new_response =
     \<lparr>status = Some 204, resp_headers = [], resp_body = Some JNull\<rparr> \<and>
   status_route show_nat (show_nat 599) new_response =
     \<lparr>status = Some 599, resp_headers = [], resp_body = Some JNull\<rparr> \<and>
   \<not> code_pattern ''abc'' \<and>
   status_route show_nat ''abc'' new_response = new_response"
  using status_route_spec [of "''42''" show_nat new_response 599]
    status_route_spec [of "''600''" show_nat new_response 599]
    status_route_spec [of "''1000''" show_nat new_response 599]
    status_route_spec [of "''204''" show_nat new_response 599]
    status_route_spec [of "''abc''" show_nat new_response 599]
  by (simp add: status_eval show_nat.simps digit_char_def)

text \<open>
  Claim C4 as it is stated fails at \<open>abc\<close>: the path \<open>/status/abc\<close> does not match the
  route, so no handler assigns a status or a body, and the response is not sent as 400
  with a message.
\<close>

theorem status_abc_counterexample:
  "\<not> code_pattern ''abc'' \<and>
   status (status_route show_nat ''abc'' new_response) = None \<and>
   resp_body (status_route show_nat ''abc'' new_response) = None \<and>
   sent_status (status_route show_nat ''abc'' new_response) \<noteq> 400"
  by (simp add: status_route_def status_eval sent_status_def)

section \<open>Properties of the redirect route\<close>

lemma redirect_location:
  "headers_get (resp_headers (redirect target r)) ''location'' = Some target"
  by (simp add: redirect_def headers_get_set)

lemma redirect_body: "resp_body (redirect target r) = resp_body r"
  by (simp add: redirect_def)

lemma redirect_status_301: "status r = Some 301 \<Longrightarrow> status (redirect target r) = Some 301"
  by (simp add: redirect_def isRedirectStatus_def)

lemma redirect_status_default: "status r = None \<Longrightarrow> status (redirect target r) = Some 302"
  by (simp add: redirect_def)

lemma redirect_handler_falsy:
  "\<not> truthy (params_get (searchParams (url req)) ''to'') \<Longrightarrow>
   redirect_handler req r =
     r\<lparr>status := Some 400,
       resp_body := Some (error_body ''provide a `to` link in the URL'')\<rparr>"
  by (simp add: redirect_handler_def Let_def)

lemma redirect_handler_truthy:
  "params_get (searchParams (url req)) ''to'' = Some t \<Longrightarrow> t \<noteq> [] \<Longrightarrow>
   redirect_handler req r =
     redirect t
       (if params_get (searchParams (url req)) ''permanent'' = Some ''1'' \<or>
           params_get (searchParams (url req)) ''permanent'' = Some ''true''
        then r\<lparr>status := Some 301\<rparr> else r)"
  by (simp add: redirect_handler_def Let_def)

lemmas redirect_eval = redirect_handler_def redirect_def params_get_def getAll_def
  headers_get_def headers_set_def new_response_def error_body_def isRedirectStatus_def Let_def

text \<open>
  Claim C8, as the code has it. When the query parameter \<open>to\<close> is absent or empty the
  handler answers 400 with the body \<open>{error: "provide a `to` link in the URL"}\<close>.
  Otherwise the response carries the value of \<open>to\<close>, as it stands and unchecked, in
  the \<open>Location\<close> header, and the handler gives it no body; its status is 301 when the
  query parameter \<open>permanent\<close> is \<open>1\<close> or \<open>true\<close>, and otherwise, on a response
  without a status, the default redirect status of the serving layer.
\<close>

theorem redirect_handler_spec:
  "(params_get (searchParams (url req)) ''to'' = None \<or>
    params_get (searchParams (url req)) ''to'' = Some [] \<longrightarrow>
      redirect_handler req r =
        r\<lparr>status := Some 400,
          resp_body := Some (error_body ''provide a `to` link in the URL'')\<rparr>) \<and>
   (params_get (searchParams (url req)) ''to'' = Some t \<and> t \<noteq> [] \<longrightarrow>
      headers_get (resp_headers (redirect_handler req r)) ''location'' = Some t \<and>
      resp_body (redirect_handler req r) = resp_body r \<and>
      (params_get (searchParams (url req)) ''permanent'' = Some ''1'' \<or>
       params_get (searchParams (url req)) ''permanent'' = Some ''true'' \<longrightarrow>
         status (redirect_handler req r) = Some 301) \<and>
      (params_get (searchParams (url req)) ''permanent'' \<noteq> Some ''1'' \<and>
       params_get (searchParams (url req)) ''permanent'' \<noteq> Some ''true'' \<and>
       status r = None \<longrightarrow>
         status (redirect_handler req r) = Some 302))"
proof -
  have missing: "params_get (searchParams (url req)) ''to'' = None \<or>
    params_get (searchParams (url req)) ''to'' = Some [] \<longrightarrow>
      redirect_handler req r =
        r\<lparr>status := Some 400,
          resp_body := Some (error_body ''provide a `to` link in the URL'')\<rparr>"
    using redirect_handler_falsy [of req r] by auto
  have given: "headers_get (resp_headers (redirect_handler req r)) ''location'' = Some t \<and>
      resp_body (redirect_handler req r) = resp_body r \<and>
      (params_get (searchParams (url req)) ''permanent'' = Some ''1'' \<or>
       params_get (searchParams (url req)) ''permanent'' = Some ''true'' \<longrightarrow>
         status (redirect_handler req r) = Some 301) \<and>
      (params_get (searchParams (url req)) ''permanent'' \<noteq> Some ''1'' \<and>
       params_get (searchParams (url req)) ''permanent'' \<noteq> Some ''true'' \<and>
       status r = None \<longrightarrow>
         status (redirect_handler req r) = Some 302)"
    if "params_get (searchParams (url req)) ''to'' = Some t" "t \<noteq> []"
    unfolding redirect_handler_truthy [OF that]
    by (simp add: redirect_location redirect_body redirect_status_301 redirect_status_default)
  from missing given show ?thesis by blast
qed

theorem redirect_handler_spec_witness:
  "params_get [(''to'', ''https://example.com'')] ''to'' = Some ''https://example.com'' \<and>
   redirect_handler \<lparr>ip = ''127.0.0.1'',
       url = \<lparr>href = ''http://localhost:3000/redirect?to=https://example.com'',
              pathname = ''/redirect'', searchParams = [(''to'', ''https://example.com'')]\<rparr>,
       headers = [], body = Inr Body_undefined\<rparr> new_response
     = \<lparr>status = Some 302, resp_headers = [(''location'', ''https://example.com'')],
        resp_body = None\<rparr> \<and>
   params_get [(''to'', ''https://example.com''), (''permanent'', ''true'')] ''permanent''
     = Some ''true'' \<and>
   redirect_handler \<lparr>ip = ''127.0.0.1'',
       url = \<lparr>href = ''http://localhost:3000/redirect?to=https://example.com&permanent=true'',
              pathname = ''/redirect'',
              searchParams = [(''to'', ''https://example.com''), (''permanent'', ''true'')]\<rparr>,
       headers = [], body = Inr Body_undefined\<rparr> new_response
     = \<lparr>status = Some 301, resp_headers = [(''location'', ''https://example.com'')],
        resp_body = None\<rparr> \<and>
   params_get [] ''to'' = None \<and>
   redirect_handler \<lparr>ip = ''127.0.0.1'',
       url = \<lparr>href = ''http://localhost:3000/redirect'', pathname = ''/redirect'',
              searchParams = []\<rparr>,
       headers = [], body = Inr Body_undefined\<rparr> new_response
     = \<lparr>status = Some 400, resp_headers = [],
        resp_body = Some (JObj [(''error'', JStr ''provide a `to` link in the URL'')])\<rparr>"
  using
    redirect_handler_spec [of
      "\<lparr>ip = ''127.0.0.1'',
        url = \<lparr>href = ''http://localhost:3000/redirect?to=https://example.com'',
               pathname = ''/redirect'', searchParams = [(''to'', ''https://example.com'')]\<rparr>,
        headers = [], body = Inr Body_undefined\<rparr>" new_response "''https://example.com''"]
    redirect_handler_spec [of
      "\<lparr>ip = ''127.0.0.1'',
        url = \<lparr>href = ''http://localhost:3000/redirect?to=https://example.com&permanent=true'',
               pathname = ''/redirect'',
               searchParams = [(''to'', ''https://example.com''), (''permanent'', ''true'')]\<rparr>,
        headers = [], body = Inr Body_undefined\<rparr>" new_response "''https://example.com''"]
    redirect_handler_spec [of
      "\<lparr>ip = ''127.0.0.1'',
        url = \<lparr>href = ''http://localhost:3000/redirect'', pathname = ''/redirect'',
               searchParams = []\<rparr>,
        headers = [], body = Inr Body_undefined\<rparr>" new_response "''https://example.com''"]
  by (simp add: redirect_eval)

text \<open>
  Claim C8 as it is stated fails when \<open>to\<close> is present and empty, as in
  \<open>/redirect?to=\<close>: the parameter is not absent, and yet the response is the 400 and
  carries no \<open>Location\<close> header.
\<close>

theorem redirect_empty_counterexample:
  "params_get [(''to'', '''')] ''to'' = Some '''' \<and>
   status (redirect_handler \<lparr>ip = ''127.0.0.1'',
       url = \<lparr>href = ''http://localhost:3000/redirect?to='', pathname = ''/redirect'',
              searchParams = [(''to'', '''')]\<rparr>,
       headers = [], body = Inr Body_undefined\<rparr> new_response) = Some 400 \<and>
   headers_get (resp_headers (redirect_handler \<lparr>ip = ''127.0.0.1'',
       url = \<lparr>href = ''http://localhost:3000/redirect?to='', pathname = ''/redirect'',
              searchParams = [(''to'', '''')]\<rparr>,
       headers = [], body = Inr Body_undefined\<rparr> new_response)) ''location'' = None"
  by (simp add: redirect_eval)

text \<open>
  Claim C10. When \<open>to\<close> is present and empty the handler answers 400 with the same
  body as when \<open>to\<close> is absent. On a fresh response, a redirect status is sent, and
  a \<open>Location\<close> header is set, exactly when \<open>to\<close> is a string that is not empty.
\<close>

theorem redirect_empty_to:
  "(params_get (searchParams (url req)) ''to'' = Some [] \<longrightarrow>
      redirect_handler req r =
        r\<lparr>status := Some 400,
          resp_body := Some (error_body ''provide a `to` link in the URL'')\<rparr>) \<and>
   (params_get (searchParams (url req)) ''to'' = None \<longrightarrow>
      redirect_handler req r =
        r\<lparr>status := Some 400,
          resp_body := Some (error_body ''provide a `to` link in the URL'')\<rparr>) \<and>
   (isRedirectStatus (sent_status (redirect_handler req new_response)) \<longleftrightarrow>
      (\<exists>t. params_get (searchParams (url req)) ''to'' = Some t \<and> t \<noteq> [])) \<and>
   (headers_get (resp_headers (redirect_handler req new_response)) ''location'' \<noteq> None \<longleftrightarrow>
      (\<exists>t. params_get (searchParams (url req)) ''to'' = Some t \<and> t \<noteq> []))"
proof (cases "truthy (params_get (searchParams (url req)) ''to'')")
  case True
  then obtain t where t: "params_get (searchParams (url req)) ''to'' = Some t" "t \<noteq> []"
    by (cases "params_get (searchParams (url req)) ''to''") auto
  have "isRedirectStatus (sent_status (redirect_handler req new_response))"
    unfolding redirect_handler_truthy [OF t]
    by (simp add: sent_status_def redirect_def new_response_def isRedirectStatus_def)
  moreover have "headers_get (resp_headers (redirect_handler req new_response)) ''location'' \<noteq> None"
    unfolding redirect_handler_truthy [OF t] by (simp add: redirect_location)
  ultimately show ?thesis using t by simp
next
  case False
  then have none: "\<not> (\<exists>t. params_get (searchParams (url req)) ''to'' = Some t \<and> t \<noteq> [])"
    by auto
  have "\<not> isRedirectStatus (sent_status (redirect_handler req new_response))"
    unfolding redirect_handler_falsy [OF False]
    by (simp add: sent_status_def isRedirectStatus_def)
  moreover have "headers_get (resp_headers (redirect_handler req new_response)) ''location'' = None"
    unfolding redirect_handler_falsy [OF False]
    by (simp add: new_response_def headers_get_def getAll_def)
  ultimately show ?thesis
    using none redirect_handler_falsy [OF False, of r] by auto
qed

theorem redirect_empty_to_witness:
  "params_get [(''to'', '''')] ''to'' = Some [] \<and>
   redirect_handler \<lparr>ip = ''127.0.0.1'',
       url = \<lparr>href = ''http://localhost:3000/redirect?to='', pathname = ''/redirect'',
              searchParams = [(''to'', '''')]\<rparr>,
       headers = [], body = Inr Body_undefined\<rparr> new_response
     = \<lparr>status = Some 400, resp_headers = [],
        resp_body = Some (JObj [(''error'', JStr ''provide a `to` link in the URL'')])\<rparr> \<and>
   redirect_handler \<lparr>ip = ''127.0.0.1'',
       url = \<lparr>href = ''http://localhost:3000/redirect'', pathname = ''/redirect'',
              searchParams = []\<rparr>,
       headers = [], body = Inr Body_undefined\<rparr> new_response
     = \<lparr>status = Some 400, resp_headers = [],
        resp_body = Some (JObj [(''error'', JStr ''provide a `to` link in the URL'')])\<rparr> \<and>
   \<not> isRedirectStatus (sent_status (redirect_handler \<lparr>ip = ''127.0.0.1'',
       url = \<lparr>href = ''http://localhost:3000/redirect?to='', pathname = ''/redirect'',
              searchParams = [(''to'', '''')]\<rparr>,
       headers = [], body = Inr Body_undefined\<rparr> new_response))"
  using
    redirect_empty_to [of
      "\<lparr>ip = ''127.0.0.1'',
        url = \<lparr>href = ''http://localhost:3000/redirect?to='', pathname = ''/redirect'',
               searchParams = [(''to'', '''')]\<rparr>,
        headers = [], body = Inr Body_undefined\<rparr>" new_response]
    redirect_empty_to [of
      "\<lparr>ip = ''127.0.0.1'',
        url = \<lparr>href = ''http://localhost:3000/redirect'', pathname = ''/redirect'',
               searchParams = []\<rparr>,
        headers = [], body = Inr Body_undefined\<rparr>" new_response]
  by (simp add: redirect_eval sent_status_def)

section \<open>Properties of the trailing-slash middleware\<close>

lemma endsWith_slash: "endsWith p ''/'' \<Longrightarrow> \<exists>q. p = q @ ''/'' \<and> take (length p - 1) p = q"
  by (auto simp: endsWith_def suffix_def)

text \<open>
  Claim C9. When the path is not \<open>/\<close> and ends with a slash, the middleware returns
  by itself a response with status 301 whose \<open>Location\<close> header is the path without
  its last slash; the result is the same whatever the rest of the chain is, so the
  router and its handlers have no part in it, and the request is untouched. For every
  other path the result is that of the rest of the chain on the unchanged context.
\<close>

theorem trailing_slash_spec:
  "(pathname (url (request ctx)) \<noteq> ''/'' \<and> endsWith (pathname (url (request ctx))) ''/'' \<longrightarrow>
      (\<exists>c' p. trailing_slash next ctx = Inr c' \<and>
              pathname (url (request ctx)) = p @ ''/'' \<and>
              request c' = request ctx \<and>
              status (response c') = Some 301 \<and>
              sent_status (response c') = 301 \<and>
              headers_get (resp_headers (response c')) ''location'' = Some p) \<and>
      trailing_slash next' ctx = trailing_slash next ctx) \<and>
   (\<not> (pathname (url (request ctx)) \<noteq> ''/'' \<and> endsWith (pathname (url (request ctx))) ''/'') \<longrightarrow>
      trailing_slash next ctx = next ctx)"
proof (intro conjI impI)
  assume a: "pathname (url (request ctx)) \<noteq> ''/'' \<and> endsWith (pathname (url (request ctx))) ''/''"
  then obtain q where q: "pathname (url (request ctx)) = q @ ''/''"
    "take (length (pathname (url (request ctx))) - 1) (pathname (url (request ctx))) = q"
    using endsWith_slash by blast
  let ?c = "ctx\<lparr>response := redirect q ((response ctx)\<lparr>status := Some 301\<rparr>)\<rparr>"
  have r: "trailing_slash next ctx = Inr ?c"
    using a q(2) by (simp add: trailing_slash_def Let_def)
  have s: "status (response ?c) = Some 301"
    by (simp add: redirect_status_301)
  then have "sent_status (response ?c) = 301"
    by (simp add: sent_status_def)
  moreover have "headers_get (resp_headers (response ?c)) ''location'' = Some q"
    by (simp add: redirect_location)
  ultimately show "\<exists>c' p. trailing_slash next ctx = Inr c' \<and>
              pathname (url (request ctx)) = p @ ''/'' \<and>
              request c' = request ctx \<and>
              status (response c') = Some 301 \<and>
              sent_status (response c') = 301 \<and>
              headers_get (resp_headers (response c')) ''location'' = Some p"
    using r s q(1) by auto
  show "trailing_slash next' ctx = trailing_slash next ctx"
    using a by (simp add: trailing_slash_def Let_def)
next
  assume "\<not> (pathname (url (request ctx)) \<noteq> ''/'' \<and> endsWith (pathname (url (request ctx))) ''/'')"
  then show "trailing_slash next ctx = next ctx"
    by (auto simp: trailing_slash_def Let_def)
qed

theorem trailing_slash_spec_witness:
  "''/get/'' \<noteq> ''/'' \<and> endsWith ''/get/'' ''/'' \<and>
   trailing_slash (\<lambda>c. Inl ReadError)
     \<lparr>request = \<lparr>ip = ''127.0.0.1'',
                 url = \<lparr>href = ''http://localhost:3000/get/'', pathname = ''/get/'',
                        searchParams = []\<rparr>,
                 headers = [], body = Inr Body_undefined\<rparr>,
      response = new_response\<rparr>
     = Inr \<lparr>request = \<lparr>ip = ''127.0.0.1'',
                 url = \<lparr>href = ''http://localhost:3000/get/'', pathname = ''/get/'',
                        searchParams = []\<rparr>,
                 headers = [], body = Inr Body_undefined\<rparr>,
            response = \<lparr>status = Some 301, resp_headers = [(''location'', ''/get'')],
                        resp_body = None\<rparr>\<rparr> \<and>
   \<not> endsWith ''/get'' ''/'' \<and>
   trailing_slash (\<lambda>c. Inl ReadError)
     \<lparr>request = \<lparr>ip = ''127.0.0.1'',
                 url = \<lparr>href = ''http://localhost:3000/get'', pathname = ''/get'',
                        searchParams = []\<rparr>,
                 headers = [], body = Inr Body_undefined\<rparr>,
      response = new_response\<rparr>
     = Inl ReadError"
  using
    trailing_slash_spec [of
      "\<lparr>request = \<lparr>ip = ''127.0.0.1'',
                  url = \<lparr>href = ''http://localhost:3000/get/'', pathname = ''/get/'',
                         searchParams = []\<rparr>,
                  headers = [], body = Inr Body_undefined\<rparr>,
        response = new_response\<rparr>" "\<lambda>c. Inl ReadError" "\<lambda>c. Inl ReadError"]
    trailing_slash_spec [of
      "\<lparr>request = \<lparr>ip = ''127.0.0.1'',
                  url = \<lparr>href = ''http://localhost:3000/get'', pathname = ''/get'',
                         searchParams = []\<rparr>,
                  headers = [], body = Inr Body_undefined\<rparr>,
        response = new_response\<rparr>" "\<lambda>c. Inl ReadError" "\<lambda>c. Inl ReadError"]
  by (simp add: trailing_slash_def endsWith_def suffix_to_prefix redirect_def headers_set_def
      new_response_def isRedirectStatus_def Let_def)

end
